theory Spec2Isabelle
  imports Complex_Main
begin

section \<open>Messages and ranking data\<close>

text \<open>
  Modelled from the spec: the message and ranking types of \<^verbatim>\<open>nboost.base.types\<close>
  (imported with \<^verbatim>\<open>from ..base.types import *\<close>; the module is not part of the
  sources). A request carries method, path, headers and body; a response carries the
  protocol marker, the status code, headers and body, in the order of the call
  \<^verbatim>\<open>Response(b'HTTP/1.1', 200, {}, body)\<close> of the tests. The pipelines never look
  inside any of these values.
\<close>

datatype request = Request (req_method: string) (req_path: string)
  (req_headers: "(string \<times> string) list") (req_body: string)

datatype response = Response (protocol: string) (status_code: int)
  (resp_headers: "(string \<times> string) list") (resp_body: string)

type_synonym query = string
type_synonym choices = "string list"
type_synonym ranks = "int list"
type_synonym qid = nat
type_synonym cid = nat
type_synonym labels = "(cid \<times> int) list"
type_synonym dict = "string \<rightharpoonup> string"

text \<open>
  A Python exception, as a value: an instance of \<^verbatim>\<open>StopIteration\<close>, a
  \<^verbatim>\<open>RuntimeError\<close> with its message, or any other exception.
\<close>

datatype exn = StopIteration | RuntimeError string | Exn string

text \<open>
  The keys of the routing table (\<^verbatim>\<open>Route.SEARCH\<close>, ...) as the constructor names
  the source uses, the path binding the codex supplies for each (a path and its methods,
  as in the tests), and the five route callbacks that \<^verbatim>\<open>Proxy.__init__\<close> defines.
\<close>

datatype route = SEARCH | TRAIN | STATUS | ERROR

type_synonym binding = "string \<times> string list"

datatype handler = Search | Train | Status | Not_found | Error

type_synonym routes = "route \<rightharpoonup> binding \<times> handler"

section \<open>Computations, awaitables and the observable trace\<close>

text \<open>
  A call either raises (\<open>Inl\<close>) or returns (\<open>Inr\<close>), and changes the state. What a
  callable returns is either a plain value or an awaitable, which is itself a computation
  run by \<^verbatim>\<open>await\<close>.
\<close>

type_synonym ('a, 's) comp = "'s \<Rightarrow> (exn + 'a) \<times> 's"

datatype ('a, 's) res = Plain 'a | Awaitable "'s \<Rightarrow> (exn + 'a) \<times> 's"

type_synonym ('a, 's) meth = "'s \<Rightarrow> (exn + ('a, 's) res) \<times> 's"

text \<open>
  Every call that leaves the orchestrator is recorded with its arguments and, for the
  request-handling methods, its outcome. \<open>Lap ms cls name\<close> is the call
  \<^verbatim>\<open>db.lap(ms, cls, name)\<close>.
\<close>

datatype event =
    Lap real string string
  | Magnify request "exn + request"
  | Ask request "exn + response"
  | Parse request response "exn + query \<times> choices"
  | Rank query choices "exn + ranks"
  | Save query choices "exn + qid \<times> cid list"
  | Pack request response query choices ranks qid "cid list" "exn + response"
  | Pluck request "exn + qid \<times> cid list"
  | Get qid "cid list" "exn + query \<times> choices \<times> labels"
  | Train_model query choices labels "exn + unit"
  | Ack qid "cid list" "exn + response"
  | Forward request "exn + response"
  | Catch exn "exn + response"
  | Server_chain_state dict "exn + dict"
  | Codex_chain_state dict "exn + dict"
  | Model_chain_state dict "exn + dict"
  | Db_chain_state dict "exn + dict"
  | Pulse dict "exn + response"
  | Create_app routes "handler option"
  | Log_info "(string \<times> string) list"
  | Log_critical string
  | Server_start
  | Is_ready_wait
  | Server_exit
  | Server_join

text \<open>
  The state: how many times the performance counter has been read, the trace of calls,
  and the state of the four collaborators, which only they change.
\<close>

record 'c world =
  tick :: nat
  trace :: "event list"
  ext :: 'c

section \<open>The collaborators\<close>

text \<open>
  The four components are instances of classes outside the sources
  (\<^verbatim>\<open>BaseServer\<close>, \<^verbatim>\<open>BaseCodex\<close>, \<^verbatim>\<open>BaseModel\<close>, \<^verbatim>\<open>BaseDb\<close> or
  subclasses), so each method is a parameter. A method that the pipelines call through
  \<^verbatim>\<open>track\<close> may raise, return a value, or return an awaitable; the methods of the
  status pipeline are called directly and may raise or return. \<^verbatim>\<open>db.lap\<close>, the
  logger, \<^verbatim>\<open>create_app\<close> and the listener's life-cycle calls act on the collaborators'
  state and return.
\<close>

record 'c server =
  server_class :: string
  server_ask :: "request \<Rightarrow> (response, 'c) meth"
  server_forward :: "request \<Rightarrow> (response, 'c) meth"
  server_chain_state :: "dict \<Rightarrow> (dict, 'c) comp"
  server_create_app :: "routes \<Rightarrow> handler option \<Rightarrow> 'c \<Rightarrow> 'c"
  server_start :: "'c \<Rightarrow> 'c"
  server_is_ready_wait :: "'c \<Rightarrow> 'c"
  server_exit :: "'c \<Rightarrow> 'c"
  server_join :: "'c \<Rightarrow> 'c"

record 'c codex =
  codex_class :: string
  codex_SEARCH :: binding
  codex_TRAIN :: binding
  codex_STATUS :: binding
  codex_ERROR :: binding
  codex_magnify :: "request \<Rightarrow> (request, 'c) meth"
  codex_parse :: "request \<times> response \<Rightarrow> (query \<times> choices, 'c) meth"
  codex_pack :: "request \<times> response \<times> query \<times> choices \<times> ranks \<times> qid \<times> cid list
    \<Rightarrow> (response, 'c) meth"
  codex_pluck :: "request \<Rightarrow> (qid \<times> cid list, 'c) meth"
  codex_ack :: "qid \<times> cid list \<Rightarrow> (response, 'c) meth"
  codex_catch :: "exn \<Rightarrow> (response, 'c) meth"
  codex_chain_state :: "dict \<Rightarrow> (dict, 'c) comp"
  codex_pulse :: "dict \<Rightarrow> (response, 'c) comp"

record 'c model =
  model_class :: string
  model_rank :: "query \<times> choices \<Rightarrow> (ranks, 'c) meth"
  model_train :: "query \<times> choices \<times> labels \<Rightarrow> (unit, 'c) meth"
  model_chain_state :: "dict \<Rightarrow> (dict, 'c) comp"

record 'c db =
  db_class :: string
  db_save :: "query \<times> choices \<Rightarrow> (qid \<times> cid list, 'c) meth"
  db_get :: "qid \<times> cid list \<Rightarrow> (query \<times> choices \<times> labels, 'c) meth"
  db_lap :: "real \<Rightarrow> string \<Rightarrow> string \<Rightarrow> 'c \<Rightarrow> 'c"
  db_chain_state :: "dict \<Rightarrow> (dict, 'c) comp"

text \<open>
  What the closures of \<^verbatim>\<open>Proxy.__init__\<close> capture: the orchestrator's own class name
  (\<^verbatim>\<open>self.__class__.__name__\<close>), the four components, and the performance counter,
  whose \<open>n\<close>-th reading is \<open>clock n\<close> (seconds, idealised as a real number).
\<close>

record 'c proxy =
  proxy_class :: string
  clock :: "nat \<Rightarrow> real"
  server :: "'c server"
  codex :: "'c codex"
  model :: "'c model"
  db :: "'c db"

section \<open>Callables\<close>

text \<open>
  What \<^verbatim>\<open>track\<close> reads of a callable \<open>f\<close>: the class name of \<^verbatim>\<open>f.__self__\<close>
  when \<open>f\<close> has that attribute (a bound method), \<^verbatim>\<open>f.__name__\<close>, and the call itself.
\<close>

record ('a, 'b, 'c) callable =
  self_class :: "string option"
  fn_name :: string
  call :: "'a \<Rightarrow> ('b, 'c world) meth"

text \<open>Running a collaborator's computation on the collaborators' part of the state.\<close>

definition on_ext :: "(exn + 'b \<Rightarrow> event) \<Rightarrow> ('b, 'c) comp \<Rightarrow> ('b, 'c world) comp" where
  "on_ext ev m s =
     (case m (ext s) of
        (r, c) \<Rightarrow> (r, s\<lparr>trace := trace s @ [ev r], ext := c\<rparr>))"

text \<open>
  A bound method of a component: the call runs the method; when it raises or returns a
  plain value the outcome is recorded at once, when it returns an awaitable the outcome
  is recorded once the awaitable has been awaited.
\<close>

definition bound_method ::
  "string \<Rightarrow> string \<Rightarrow> ('a \<Rightarrow> exn + 'b \<Rightarrow> event) \<Rightarrow> ('a \<Rightarrow> ('b, 'c) meth)
    \<Rightarrow> ('a, 'b, 'c) callable" where
  "bound_method cls name ev m =
     \<lparr>self_class = Some cls, fn_name = name,
      call = (\<lambda>args s.
        case m args (ext s) of
          (Inl e, c) \<Rightarrow> (Inl e, s\<lparr>trace := trace s @ [ev args (Inl e)], ext := c\<rparr>)
        | (Inr (Plain v), c) \<Rightarrow>
            (Inr (Plain v), s\<lparr>trace := trace s @ [ev args (Inr v)], ext := c\<rparr>)
        | (Inr (Awaitable k), c) \<Rightarrow>
            (Inr (Awaitable (on_ext (ev args) k)), s\<lparr>ext := c\<rparr>))\<rparr>"

text \<open>
  A closure defined with \<^verbatim>\<open>async def\<close>: it has no \<^verbatim>\<open>__self__\<close>, and calling it
  runs nothing and returns the coroutine of its body.
\<close>

definition async_def :: "string \<Rightarrow> ('a \<Rightarrow> ('b, 'c world) comp) \<Rightarrow> ('a, 'b, 'c) callable" where
  "async_def name body =
     \<lparr>self_class = None, fn_name = name, call = (\<lambda>args s. (Inr (Awaitable (body args)), s))\<rparr>"

section \<open>track\<close>

definition perf_counter :: "'c proxy \<Rightarrow> 'c world \<Rightarrow> real \<times> 'c world" where
  "perf_counter p s = (clock p (tick s), s\<lparr>tick := Suc (tick s)\<rparr>)"

definition lap :: "'c proxy \<Rightarrow> real \<Rightarrow> string \<Rightarrow> string \<Rightarrow> 'c world \<Rightarrow> 'c world" where
  "lap p ms cls name s =
     s\<lparr>trace := trace s @ [Lap ms cls name], ext := db_lap (db p) ms cls name (ext s)\<rparr>"

text \<open>
  An exception that leaves the body of a coroutine: Python does not let a
  \<^verbatim>\<open>StopIteration\<close> out of a coroutine, the awaiting caller gets
  \<^verbatim>\<open>RuntimeError('coroutine raised StopIteration')\<close> in its place. Every other
  exception leaves as it is. \<^verbatim>\<open>decorator\<close> and the five route callbacks are
  coroutines (\<^verbatim>\<open>async def\<close>).
\<close>

definition coroutine_exit :: "exn \<Rightarrow> exn" where
  "coroutine_exit e =
     (case e of
        StopIteration \<Rightarrow> RuntimeError ''coroutine raised StopIteration''
      | RuntimeError msg \<Rightarrow> RuntimeError msg
      | Exn msg \<Rightarrow> Exn msg)"

text \<open>
  \<^verbatim>\<open>ret = await res if isawaitable(res) else res\<close>. The computation \<open>k\<close> of an
  awaitable is the body of the coroutine behind it: what it raises reaches the
  \<^verbatim>\<open>await\<close> through \<open>coroutine_exit\<close>.
\<close>

definition await_if :: "('b, 's) res \<Rightarrow> ('b, 's) comp" where
  "await_if r s =
     (case r of
        Awaitable k \<Rightarrow>
          (case k s of
             (Inl e, s') \<Rightarrow> (Inl (coroutine_exit e), s')
           | (Inr v, s') \<Rightarrow> (Inr v, s'))
      | Plain v \<Rightarrow> (Inr v, s))"

text \<open>The first component of \<^verbatim>\<open>ident\<close>.\<close>

definition ident_cls :: "'c proxy \<Rightarrow> ('a, 'b, 'c) callable \<Rightarrow> string" where
  "ident_cls p f = (case self_class f of Some cls \<Rightarrow> cls | None \<Rightarrow> proxy_class p)"

text \<open>
  \<open>track p f\<close> is the coroutine function \<^verbatim>\<open>decorator\<close> that \<^verbatim>\<open>track(f)\<close> returns,
  as run by \<^verbatim>\<open>await track(f)(*args)\<close>. There is no \<^verbatim>\<open>try\<close> in it: an exception of
  \<^verbatim>\<open>f(*args)\<close> or of the \<^verbatim>\<open>await\<close> leaves the body at that line, and the
  coroutine through \<open>coroutine_exit\<close>.
\<close>

definition track :: "'c proxy \<Rightarrow> ('a, 'b, 'c) callable \<Rightarrow> 'a \<Rightarrow> ('b, 'c world) comp" where
  "track p f args s =
     (let cls = ident_cls p f;
          name = fn_name f;
          (start, s0) = perf_counter p s
      in case call f args s0 of
           (Inl e, s1) \<Rightarrow> (Inl (coroutine_exit e), s1)
         | (Inr r, s1) \<Rightarrow>
             (case await_if r s1 of
                (Inl e, s2) \<Rightarrow> (Inl (coroutine_exit e), s2)
              | (Inr ret, s2) \<Rightarrow>
                  (let (stop, s3) = perf_counter p s2;
                       ms = (stop - start) * 1000
                   in (Inr ret, lap p ms cls name s3))))"

section \<open>The components' methods as callables\<close>

text \<open>
  \<^verbatim>\<open>codex.magnify\<close>, \<^verbatim>\<open>server.ask\<close>, ...: bound methods, whose \<^verbatim>\<open>__self__\<close> is
  the component and whose \<^verbatim>\<open>__name__\<close> is the method's name. A method of several
  parameters takes them as a tuple.
\<close>

definition magnify :: "'c proxy \<Rightarrow> (request, request, 'c) callable" where
  "magnify p = bound_method (codex_class (codex p)) ''magnify'' Magnify (codex_magnify (codex p))"

definition ask :: "'c proxy \<Rightarrow> (request, response, 'c) callable" where
  "ask p = bound_method (server_class (server p)) ''ask'' Ask (server_ask (server p))"

definition parse :: "'c proxy \<Rightarrow> (request \<times> response, query \<times> choices, 'c) callable" where
  "parse p = bound_method (codex_class (codex p)) ''parse''
     (\<lambda>(r2, r3). Parse r2 r3) (codex_parse (codex p))"

definition rank :: "'c proxy \<Rightarrow> (query \<times> choices, ranks, 'c) callable" where
  "rank p = bound_method (model_class (model p)) ''rank''
     (\<lambda>(q, ch). Rank q ch) (model_rank (model p))"

definition save :: "'c proxy \<Rightarrow> (query \<times> choices, qid \<times> cid list, 'c) callable" where
  "save p = bound_method (db_class (db p)) ''save''
     (\<lambda>(q, ch). Save q ch) (db_save (db p))"

definition pack ::
  "'c proxy \<Rightarrow> (request \<times> response \<times> query \<times> choices \<times> ranks \<times> qid \<times> cid list,
     response, 'c) callable" where
  "pack p = bound_method (codex_class (codex p)) ''pack''
     (\<lambda>(r1, r3, q, ch, rk, i, cs). Pack r1 r3 q ch rk i cs) (codex_pack (codex p))"

definition pluck :: "'c proxy \<Rightarrow> (request, qid \<times> cid list, 'c) callable" where
  "pluck p = bound_method (codex_class (codex p)) ''pluck'' Pluck (codex_pluck (codex p))"

definition get :: "'c proxy \<Rightarrow> (qid \<times> cid list, query \<times> choices \<times> labels, 'c) callable" where
  "get p = bound_method (db_class (db p)) ''get''
     (\<lambda>(i, cs). Get i cs) (db_get (db p))"

definition train_model :: "'c proxy \<Rightarrow> (query \<times> choices \<times> labels, unit, 'c) callable" where
  "train_model p = bound_method (model_class (model p)) ''train''
     (\<lambda>(q, ch, lb). Train_model q ch lb) (model_train (model p))"

definition ack :: "'c proxy \<Rightarrow> (qid \<times> cid list, response, 'c) callable" where
  "ack p = bound_method (codex_class (codex p)) ''ack''
     (\<lambda>(i, cs). Ack i cs) (codex_ack (codex p))"

definition forward :: "'c proxy \<Rightarrow> (request, response, 'c) callable" where
  "forward p = bound_method (server_class (server p)) ''forward'' Forward
     (server_forward (server p))"

definition catch :: "'c proxy \<Rightarrow> (exn, response, 'c) callable" where
  "catch p = bound_method (codex_class (codex p)) ''catch'' Catch (codex_catch (codex p))"

section \<open>The five route callbacks\<close>

text \<open>
  \<^verbatim>\<open>x = await m; rest\<close>: an exception of \<open>m\<close> ends the coroutine, a value goes on.
\<close>

definition bind_comp :: "('a, 's) comp \<Rightarrow> ('a \<Rightarrow> ('b, 's) comp) \<Rightarrow> ('b, 's) comp" where
  "bind_comp m f s = (case m s of (Inl e, s') \<Rightarrow> (Inl e, s') | (Inr v, s') \<Rightarrow> f v s')"

definition return_comp :: "'a \<Rightarrow> ('a, 's) comp" where
  "return_comp v s = (Inr v, s)"

definition search_body :: "'c proxy \<Rightarrow> request \<Rightarrow> (response, 'c world) comp" where
  "search_body p r1 =
     bind_comp (track p (magnify p) r1) (\<lambda>r2.
     bind_comp (track p (ask p) r2) (\<lambda>r3.
     bind_comp (track p (parse p) (r2, r3)) (\<lambda>(q, ch).
     bind_comp (track p (rank p) (q, ch)) (\<lambda>r5.
     bind_comp (track p (save p) (q, ch)) (\<lambda>(i, cs).
     bind_comp (track p (pack p) (r1, r3, q, ch, r5, i, cs)) (\<lambda>r7.
     return_comp r7))))))"

definition search :: "'c proxy \<Rightarrow> request \<Rightarrow> (response, 'c world) comp" where
  "search p = track p (async_def ''search'' (search_body p))"

definition train_body :: "'c proxy \<Rightarrow> request \<Rightarrow> (response, 'c world) comp" where
  "train_body p r1 =
     bind_comp (track p (pluck p) r1) (\<lambda>(i, cs).
     bind_comp (track p (get p) (i, cs)) (\<lambda>(q, ch, lb).
     bind_comp (track p (train_model p) (q, ch, lb)) (\<lambda>_.
     bind_comp (track p (ack p) (i, cs)) (\<lambda>r4.
     return_comp r4))))"

definition train :: "'c proxy \<Rightarrow> request \<Rightarrow> (response, 'c world) comp" where
  "train p = track p (async_def ''train'' (train_body p))"

definition status_body :: "'c proxy \<Rightarrow> request \<Rightarrow> (response, 'c world) comp" where
  "status_body p r1 =
     bind_comp (on_ext (Server_chain_state Map.empty)
        (server_chain_state (server p) Map.empty)) (\<lambda>d2.
     bind_comp (on_ext (Codex_chain_state d2) (codex_chain_state (codex p) d2)) (\<lambda>d3.
     bind_comp (on_ext (Model_chain_state d3) (model_chain_state (model p) d3)) (\<lambda>d4.
     bind_comp (on_ext (Db_chain_state d4) (db_chain_state (db p) d4)) (\<lambda>d5.
     bind_comp (on_ext (Pulse d5) (codex_pulse (codex p) d5)) (\<lambda>r6.
     return_comp r6)))))"

definition status :: "'c proxy \<Rightarrow> request \<Rightarrow> (response, 'c world) comp" where
  "status p = track p (async_def ''status'' (status_body p))"

definition not_found_body :: "'c proxy \<Rightarrow> request \<Rightarrow> (response, 'c world) comp" where
  "not_found_body p r1 =
     bind_comp (track p (forward p) r1) (\<lambda>r2.
     return_comp r2)"

definition not_found :: "'c proxy \<Rightarrow> request \<Rightarrow> (response, 'c world) comp" where
  "not_found p = track p (async_def ''not_found'' (not_found_body p))"

definition error_body :: "'c proxy \<Rightarrow> exn \<Rightarrow> (response, 'c world) comp" where
  "error_body p e1 =
     bind_comp (track p (catch p) e1) (\<lambda>r2.
     return_comp r2)"

definition error :: "'c proxy \<Rightarrow> exn \<Rightarrow> (response, 'c world) comp" where
  "error p = track p (async_def ''error'' (error_body p))"

text \<open>What each name of a route callback stands for.\<close>

datatype 'c callback =
    On_request "request \<Rightarrow> 'c world \<Rightarrow> (exn + response) \<times> 'c world"
  | On_error "exn \<Rightarrow> 'c world \<Rightarrow> (exn + response) \<times> 'c world"

definition callback :: "'c proxy \<Rightarrow> handler \<Rightarrow> 'c callback" where
  "callback p h =
     (case h of
        Search \<Rightarrow> On_request (search p)
      | Train \<Rightarrow> On_request (train p)
      | Status \<Rightarrow> On_request (status p)
      | Not_found \<Rightarrow> On_request (not_found p)
      | Error \<Rightarrow> On_error (error p))"

section \<open>Construction and life cycle\<close>

text \<open>
  The rest of \<^verbatim>\<open>Proxy.__init__\<close>, once the four components exist and the callbacks
  are defined: the routing table, the one call of \<^verbatim>\<open>server.create_app\<close>, and the log
  line with the components' class names. \<^verbatim>\<open>create_app\<close> is called with the table
  alone; the second argument of \<open>Create_app\<close> is the \<^verbatim>\<open>not_found_handler\<close> that the
  listener's \<^verbatim>\<open>create_app\<close> accepts in the tests, \<open>None\<close> when the call passes none.
\<close>

definition routes_of :: "'c proxy \<Rightarrow> routes" where
  "routes_of p =
     [SEARCH \<mapsto> (codex_SEARCH (codex p), Search),
      TRAIN \<mapsto> (codex_TRAIN (codex p), Train),
      STATUS \<mapsto> (codex_STATUS (codex p), Status),
      ERROR \<mapsto> (codex_ERROR (codex p), Error)]"

definition create_app :: "'c proxy \<Rightarrow> routes \<Rightarrow> handler option \<Rightarrow> 'c world \<Rightarrow> 'c world" where
  "create_app p rs nf s =
     s\<lparr>trace := trace s @ [Create_app rs nf],
       ext := server_create_app (server p) rs nf (ext s)\<rparr>"

definition log_event :: "event \<Rightarrow> 'c world \<Rightarrow> 'c world" where
  "log_event ev s = s\<lparr>trace := trace s @ [ev]\<rparr>"

definition init :: "'c proxy \<Rightarrow> 'c world \<Rightarrow> 'c world" where
  "init p s =
     (let rs = routes_of p;
          s1 = create_app p rs None s
      in log_event (Log_info
           [(''server'', server_class (server p)),
            (''codex'', codex_class (codex p)),
            (''model'', model_class (model p)),
            (''db'', db_class (db p))]) s1)"

definition life_cycle :: "event \<Rightarrow> ('c \<Rightarrow> 'c) \<Rightarrow> 'c world \<Rightarrow> 'c world" where
  "life_cycle ev f s = s\<lparr>trace := trace s @ [ev], ext := f (ext s)\<rparr>"

definition enter :: "'c proxy \<Rightarrow> 'c world \<Rightarrow> 'c world" where
  "enter p s = life_cycle Server_start (server_start (server p)) s"

definition exit :: "'c proxy \<Rightarrow> 'c world \<Rightarrow> 'c world" where
  "exit p s =
     (let s1 = log_event (Log_critical ''Stopping proxy...'') s;
          s2 = life_cycle Server_exit (server_exit (server p)) s1
      in life_cycle Server_join (server_join (server p)) s2)"

definition dunder_enter :: "'c proxy \<Rightarrow> 'c world \<Rightarrow> 'c world" where
  "dunder_enter p s =
     (let s1 = enter p s
      in life_cycle Is_ready_wait (server_is_ready_wait (server p)) s1)"

definition dunder_exit :: "'c proxy \<Rightarrow> 'c world \<Rightarrow> 'c world" where
  "dunder_exit p s = exit p s"

text \<open>
  \<^verbatim>\<open>with proxy: body\<close>, by the semantics of Python's \<^verbatim>\<open>with\<close>: \<^verbatim>\<open>__enter__\<close>,
  the body, then \<^verbatim>\<open>__exit__\<close> whether the body returned or raised; \<^verbatim>\<open>__exit__\<close>
  returns \<^verbatim>\<open>None\<close>, so an exception of the body is raised again after it.
\<close>

definition with_proxy :: "'c proxy \<Rightarrow> ('a, 'c world) comp \<Rightarrow> ('a, 'c world) comp" where
  "with_proxy p body s =
     (let s1 = dunder_enter p s
      in case body s1 of (r, s2) \<Rightarrow> (r, dunder_exit p s2))"

section \<open>Reading a run\<close>

text \<open>
  The outcome of a call once an awaitable result has been awaited, as the second and third
  line of \<^verbatim>\<open>decorator\<close> compute it.
\<close>

definition settle :: "('b, 's) meth \<Rightarrow> ('b, 's) comp" where
  "settle m s = (case m s of (Inl e, s1) \<Rightarrow> (Inl e, s1) | (Inr r, s1) \<Rightarrow> await_if r s1)"

text \<open>The milliseconds between the readings number \<open>a\<close> and \<open>b\<close> of the counter.\<close>

definition elapsed_ms :: "'c proxy \<Rightarrow> nat \<Rightarrow> nat \<Rightarrow> real" where
  "elapsed_ms p a b = (clock p b - clock p a) * 1000"

text \<open>The events that a run from \<open>s\<close> to \<open>s'\<close> added, and the latency samples among events.\<close>

definition new_events :: "'c world \<Rightarrow> 'c world \<Rightarrow> event list" where
  "new_events s s' = drop (length (trace s)) (trace s')"

fun lap_samples :: "event list \<Rightarrow> (real \<times> string \<times> string) list" where
  "lap_samples [] = []"
| "lap_samples (Lap ms cls name # evs) = (ms, cls, name) # lap_samples evs"
| "lap_samples (ev # evs) = lap_samples evs"


section \<open>A small instance\<close>

text \<open>
  Four stub components for running the pipelines on concrete input. Their shared state
  counts the samples the db has received. The listener and the model answer through
  awaitables, the codex and the db directly.
\<close>

definition upstream_response :: response where
  "upstream_response = Response ''HTTP/1.1'' 200 [] ''[b, a]''"

definition boosted_response :: response where
  "boosted_response = Response ''HTTP/1.1'' 200 [] ''[a]''"

definition ack_response :: response where
  "ack_response = Response ''HTTP/1.1'' 200 [] ''ack''"

definition stub_server :: "nat server" where
  "stub_server =
     \<lparr>server_class = ''StubServer'',
      server_ask = (\<lambda>r c. (Inr (Awaitable (\<lambda>c'. (Inr upstream_response, c'))), c)),
      server_forward = (\<lambda>r c. (Inr (Awaitable (\<lambda>c'. (Inr upstream_response, c'))), c)),
      server_chain_state = (\<lambda>d c. (Inr (d(''server'' \<mapsto> ''up'')), c)),
      server_create_app = (\<lambda>rs nf c. c),
      server_start = (\<lambda>c. c),
      server_is_ready_wait = (\<lambda>c. c),
      server_exit = (\<lambda>c. c),
      server_join = (\<lambda>c. c)\<rparr>"

definition stub_codex :: "nat codex" where
  "stub_codex =
     \<lparr>codex_class = ''StubCodex'',
      codex_SEARCH = (''/search'', [''GET'']),
      codex_TRAIN = (''/train'', [''POST'']),
      codex_STATUS = (''/status'', [''GET'']),
      codex_ERROR = (''/error'', [''GET'']),
      codex_magnify = (\<lambda>r c.
        (Inr (Plain (Request (req_method r) (req_path r) (req_headers r) ''size=20'')), c)),
      codex_parse = (\<lambda>(r2, r3) c. (Inr (Plain (''q'', [''b'', ''a''])), c)),
      codex_pack = (\<lambda>(r1, r3, q, ch, rk, i, cs) c. (Inr (Plain boosted_response), c)),
      codex_pluck = (\<lambda>r c. (Inr (Plain (7, [1])), c)),
      codex_ack = (\<lambda>(i, cs) c. (Inr (Plain ack_response), c)),
      codex_catch = (\<lambda>e c. (Inr (Plain (Response ''HTTP/1.1'' 500 [] ''error'')), c)),
      codex_chain_state = (\<lambda>d c. (Inr (d(''codex'' \<mapsto> ''x10'')), c)),
      codex_pulse = (\<lambda>d c. (Inr (Response ''HTTP/1.1'' 200 [] ''status''), c))\<rparr>"

definition stub_model :: "nat model" where
  "stub_model =
     \<lparr>model_class = ''StubModel'',
      model_rank = (\<lambda>(q, ch) c. (Inr (Awaitable (\<lambda>c'. (Inr [1, 0], c'))), c)),
      model_train = (\<lambda>(q, ch, lb) c. (Inr (Awaitable (\<lambda>c'. (Inr (), c'))), c)),
      model_chain_state = (\<lambda>d c. (Inr (d(''model'' \<mapsto> ''ready'')), c))\<rparr>"

definition stub_db :: "nat db" where
  "stub_db =
     \<lparr>db_class = ''StubDb'',
      db_save = (\<lambda>(q, ch) c. (Inr (Plain (7, [0, 1])), c)),
      db_get = (\<lambda>(i, cs) c. (Inr (Plain (''q'', [''b'', ''a''], [(1, 1)])), c)),
      db_lap = (\<lambda>ms cls name c. Suc c),
      db_chain_state = (\<lambda>d c. (Inr (d(''db'' \<mapsto> ''ok'')), c))\<rparr>"

definition stub_proxy :: "nat proxy" where
  "stub_proxy =
     \<lparr>proxy_class = ''Proxy'', clock = (\<lambda>n. real n),
      server = stub_server, codex = stub_codex, model = stub_model, db = stub_db\<rparr>"

text \<open>The same instance with a model whose training raises when awaited.\<close>

definition failing_train_proxy :: "nat proxy" where
  "failing_train_proxy =
     stub_proxy\<lparr>model := stub_model
       \<lparr>model_train := (\<lambda>(q, ch, lb) c.
          (Inr (Awaitable (\<lambda>c'. (Inl (Exn ''training failed''), c'))), c))\<rparr>\<rparr>"

text \<open>The same instance with a listener that cannot reach the search API.\<close>

definition unreachable_proxy :: "nat proxy" where
  "unreachable_proxy =
     stub_proxy\<lparr>server := stub_server
       \<lparr>server_ask := (\<lambda>r c.
          (Inr (Awaitable (\<lambda>c'. (Inl (Exn ''connection refused''), c'))), c))\<rparr>\<rparr>"

text \<open>The same instance with a db that raises on its status fragment.\<close>

definition failing_status_proxy :: "nat proxy" where
  "failing_status_proxy =
     stub_proxy\<lparr>db := stub_db
       \<lparr>db_chain_state := (\<lambda>d c. (Inl (Exn ''db closed''), c))\<rparr>\<rparr>"

text \<open>
  The same instance with a codex whose \<^verbatim>\<open>pluck\<close> runs off the end of an iterator: the
  call itself raises \<^verbatim>\<open>StopIteration\<close>.
\<close>

definition exhausted_proxy :: "nat proxy" where
  "exhausted_proxy =
     stub_proxy\<lparr>codex := stub_codex
       \<lparr>codex_pluck := (\<lambda>r c. (Inl StopIteration, c))\<rparr>\<rparr>"

text \<open>
  The same instance with a db whose status fragment reports its samples once it has
  received one.
\<close>

definition sample_keyed_proxy :: "nat proxy" where
  "sample_keyed_proxy =
     stub_proxy\<lparr>db := stub_db
       \<lparr>db_chain_state := (\<lambda>d c.
          (Inr (if c = 0 then d else d(''laps'' \<mapsto> ''recorded'')), c))\<rparr>\<rparr>"

definition get_request :: request where
  "get_request = Request ''GET'' ''/search'' [] ''size=2''"

definition start_world :: "nat world" where
  "start_world = \<lparr>tick = 0, trace = [], ext = 0\<rparr>"


section \<open>How a tracked call runs\<close>


lemmas stubs = stub_proxy_def stub_server_def stub_codex_def stub_model_def stub_db_def
  failing_train_proxy_def unreachable_proxy_def failing_status_proxy_def exhausted_proxy_def
  sample_keyed_proxy_def get_request_def
  start_world_def upstream_response_def boosted_response_def ack_response_def

lemmas run_defs = track_def bound_method_def async_def_def perf_counter_def lap_def await_if_def
  coroutine_exit_def ident_cls_def on_ext_def bind_comp_def return_comp_def Let_def

text \<open>
  \<open>track\<close> in one step: the counter is read, the wrapped call is made and settled, and
  only a settled value reaches the second reading and \<^verbatim>\<open>db.lap\<close>.
\<close>

lemma coroutine_exit_idem [simp]: "coroutine_exit (coroutine_exit e) = coroutine_exit e"
  by (cases e) (simp_all add: coroutine_exit_def)

lemma coroutine_exit_other [simp]:
  "coroutine_exit (Exn msg) = Exn msg"
  "coroutine_exit (RuntimeError msg) = RuntimeError msg"
  "coroutine_exit StopIteration = RuntimeError ''coroutine raised StopIteration''"
  by (simp_all add: coroutine_exit_def)

lemma track_settle:
  "track p f args s =
     (case settle (call f args) (s\<lparr>tick := Suc (tick s)\<rparr>) of
        (Inl e, s2) \<Rightarrow> (Inl (coroutine_exit e), s2)
      | (Inr v, s2) \<Rightarrow>
          (Inr v, s2\<lparr>tick := Suc (tick s2),
                     trace := trace s2 @ [Lap (elapsed_ms p (tick s) (tick s2)) (ident_cls p f) (fn_name f)],
                     ext := db_lap (db p) (elapsed_ms p (tick s) (tick s2)) (ident_cls p f) (fn_name f)
                              (ext s2)\<rparr>))"
  by (simp add: track_def settle_def perf_counter_def lap_def elapsed_ms_def Let_def
      split: prod.splits sum.splits)

lemma settle_async_def:
  "settle (call (async_def name body) args) s =
     (case body args s of
        (Inl e, s') \<Rightarrow> (Inl (coroutine_exit e), s')
      | (Inr v, s') \<Rightarrow> (Inr v, s'))"
  by (simp add: async_def_def settle_def await_if_def)

lemma bound_method_sel:
  "self_class (bound_method cls name ev m) = Some cls"
  "fn_name (bound_method cls name ev m) = name"
  by (simp_all add: bound_method_def)

lemma async_def_sel:
  "self_class (async_def name body) = None"
  "fn_name (async_def name body) = name"
  by (simp_all add: async_def_def)


lemma tracked_closure_cases:
  assumes "track p (async_def name body) args s = (out, s')"
  obtains (raises) e where "out = Inl (coroutine_exit e)"
      "body args (s\<lparr>tick := Suc (tick s)\<rparr>) = (Inl e, s')"
  | (returns) v s2 where "out = Inr v" "body args (s\<lparr>tick := Suc (tick s)\<rparr>) = (Inr v, s2)"
      "tick s' = Suc (tick s2)"
      "trace s' = trace s2 @ [Lap (elapsed_ms p (tick s) (tick s2)) (proxy_class p) name]"
      "ext s' = db_lap (db p) (elapsed_ms p (tick s) (tick s2)) (proxy_class p) name (ext s2)"
  using assms
  by (auto simp: track_settle settle_async_def ident_cls_def async_def_sel
      split: prod.splits sum.splits)



section \<open>The tracking wrapper\<close>

text \<open>
  Claim C5. Whenever \<open>f\<close> returns a value \<open>v\<close> on the arguments, directly (a plain
  result) or through an awaitable that the wrapper awaits, the tracked wrapper of \<open>f\<close>
  returns exactly \<open>v\<close>, after one call \<^verbatim>\<open>db.lap(ms, cls, name)\<close>: \<open>ms\<close> is the time in
  milliseconds between the reading taken before the call and the reading taken once the
  value is there, \<open>cls\<close> and \<open>name\<close> are the owner and operation name of \<open>f\<close>. Nothing
  else changes in the state that \<open>f\<close> left.
\<close>

theorem track_returns_result:
  assumes "call f args (s\<lparr>tick := Suc (tick s)\<rparr>) = (Inr (Plain v), s2)
     \<or> (\<exists>k s1. call f args (s\<lparr>tick := Suc (tick s)\<rparr>) = (Inr (Awaitable k), s1)
           \<and> k s1 = (Inr v, s2))"
  shows "track p f args s =
     (Inr v, s2\<lparr>tick := Suc (tick s2),
                trace := trace s2 @ [Lap (elapsed_ms p (tick s) (tick s2)) (ident_cls p f) (fn_name f)],
                ext := db_lap (db p) (elapsed_ms p (tick s) (tick s2)) (ident_cls p f) (fn_name f)
                         (ext s2)\<rparr>)"
proof -
  from assms have "settle (call f args) (s\<lparr>tick := Suc (tick s)\<rparr>) = (Inr v, s2)"
    by (auto simp: settle_def await_if_def)
  then show ?thesis by (simp add: track_settle)
qed

theorem track_returns_result_witness:
  "call (magnify stub_proxy) get_request (start_world\<lparr>tick := Suc (tick start_world)\<rparr>) =
     (Inr (Plain (Request ''GET'' ''/search'' [] ''size=20'')),
      \<lparr>tick = 1,
       trace = [Magnify get_request (Inr (Request ''GET'' ''/search'' [] ''size=20''))],
       ext = 0\<rparr>)
   \<and> track stub_proxy (magnify stub_proxy) get_request start_world =
     (Inr (Request ''GET'' ''/search'' [] ''size=20''),
      \<lparr>tick = 2,
       trace = [Magnify get_request (Inr (Request ''GET'' ''/search'' [] ''size=20'')),
                Lap 1000 ''StubCodex'' ''magnify''],
       ext = 1\<rparr>)
   \<and> (\<exists>k s1. call (ask stub_proxy) get_request
           (start_world\<lparr>tick := Suc (tick start_world)\<rparr>) = (Inr (Awaitable k), s1)
         \<and> k s1 = (Inr upstream_response,
             \<lparr>tick = 1, trace = [Ask get_request (Inr upstream_response)], ext = 0\<rparr>))
   \<and> track stub_proxy (ask stub_proxy) get_request start_world =
     (Inr upstream_response,
      \<lparr>tick = 2,
       trace = [Ask get_request (Inr upstream_response), Lap 1000 ''StubServer'' ''ask''],
       ext = 1\<rparr>)"
proof -
  have sync: "call (magnify stub_proxy) get_request
      (start_world\<lparr>tick := Suc (tick start_world)\<rparr>) =
     (Inr (Plain (Request ''GET'' ''/search'' [] ''size=20'')),
      \<lparr>tick = 1,
       trace = [Magnify get_request (Inr (Request ''GET'' ''/search'' [] ''size=20''))],
       ext = 0\<rparr>)"
    by (simp add: magnify_def bound_method_def stubs)
  have async: "\<exists>k s1. call (ask stub_proxy) get_request
           (start_world\<lparr>tick := Suc (tick start_world)\<rparr>) = (Inr (Awaitable k), s1)
         \<and> k s1 = (Inr upstream_response,
             \<lparr>tick = 1, trace = [Ask get_request (Inr upstream_response)], ext = 0\<rparr>)"
    by (simp add: ask_def bound_method_def on_ext_def stubs)
  have "track stub_proxy (magnify stub_proxy) get_request start_world =
     (Inr (Request ''GET'' ''/search'' [] ''size=20''),
      \<lparr>tick = 2,
       trace = [Magnify get_request (Inr (Request ''GET'' ''/search'' [] ''size=20'')),
                Lap 1000 ''StubCodex'' ''magnify''],
       ext = 1\<rparr>)"
    using track_returns_result [OF disjI1, OF sync, of stub_proxy]
    by (simp add: elapsed_ms_def ident_cls_def magnify_def bound_method_sel stubs)
  moreover have "track stub_proxy (ask stub_proxy) get_request start_world =
     (Inr upstream_response,
      \<lparr>tick = 2,
       trace = [Ask get_request (Inr upstream_response), Lap 1000 ''StubServer'' ''ask''],
       ext = 1\<rparr>)"
    using track_returns_result [OF disjI2, OF async, of stub_proxy]
    by (simp add: elapsed_ms_def ident_cls_def ask_def bound_method_sel stubs)
  ultimately show ?thesis using sync async by blast
qed

text \<open>
  Claim C6, as the code has it. The claim says that every error \<open>e\<close> of \<open>f\<close> reaches the
  caller as exactly \<open>e\<close>. The wrapper is a coroutine: whenever \<open>f\<close> raises \<open>e\<close> on the
  arguments, at the call or when its awaitable is awaited, the tracked wrapper raises, in
  exactly the state in which \<open>f\<close> raised, the exception \<open>e\<close> itself unless \<open>e\<close> is a
  \<^verbatim>\<open>StopIteration\<close>, and \<^verbatim>\<open>RuntimeError('coroutine raised StopIteration')\<close> when it is.
  The wrapper neither catches nor swallows the failure.
\<close>

theorem track_propagates_error:
  assumes "call f args (s\<lparr>tick := Suc (tick s)\<rparr>) = (Inl e, s2)
     \<or> (\<exists>k s1. call f args (s\<lparr>tick := Suc (tick s)\<rparr>) = (Inr (Awaitable k), s1)
           \<and> k s1 = (Inl e, s2))"
  shows "track p f args s =
     (Inl (if e = StopIteration then RuntimeError ''coroutine raised StopIteration'' else e), s2)"
proof -
  from assms have "settle (call f args) (s\<lparr>tick := Suc (tick s)\<rparr>) = (Inl e, s2)
      \<or> settle (call f args) (s\<lparr>tick := Suc (tick s)\<rparr>) = (Inl (coroutine_exit e), s2)"
    by (auto simp: settle_def await_if_def)
  then have "track p f args s = (Inl (coroutine_exit e), s2)"
    by (auto simp: track_settle)
  then show ?thesis by (cases e) simp_all
qed

theorem track_propagates_error_witness:
  "(\<exists>k s1. call (ask unreachable_proxy) get_request
        (start_world\<lparr>tick := Suc (tick start_world)\<rparr>) = (Inr (Awaitable k), s1)
      \<and> k s1 = (Inl (Exn ''connection refused''),
          \<lparr>tick = 1, trace = [Ask get_request (Inl (Exn ''connection refused''))], ext = 0\<rparr>))
   \<and> track unreachable_proxy (ask unreachable_proxy) get_request start_world =
       (Inl (Exn ''connection refused''),
        \<lparr>tick = 1, trace = [Ask get_request (Inl (Exn ''connection refused''))], ext = 0\<rparr>)
   \<and> call (pluck exhausted_proxy) get_request (start_world\<lparr>tick := Suc (tick start_world)\<rparr>) =
       (Inl StopIteration,
        \<lparr>tick = 1, trace = [Pluck get_request (Inl StopIteration)], ext = 0\<rparr>)
   \<and> fst (track exhausted_proxy (pluck exhausted_proxy) get_request start_world) =
       Inl (RuntimeError ''coroutine raised StopIteration'')"
proof -
  have raises: "\<exists>k s1. call (ask unreachable_proxy) get_request
        (start_world\<lparr>tick := Suc (tick start_world)\<rparr>) = (Inr (Awaitable k), s1)
      \<and> k s1 = (Inl (Exn ''connection refused''),
          \<lparr>tick = 1, trace = [Ask get_request (Inl (Exn ''connection refused''))], ext = 0\<rparr>)"
    by (simp add: ask_def bound_method_def on_ext_def stubs)
  have stops: "call (pluck exhausted_proxy) get_request
        (start_world\<lparr>tick := Suc (tick start_world)\<rparr>) =
       (Inl StopIteration,
        \<lparr>tick = 1, trace = [Pluck get_request (Inl StopIteration)], ext = 0\<rparr>)"
    by (simp add: pluck_def bound_method_def stubs)
  from track_propagates_error [OF disjI2, OF raises, of unreachable_proxy]
    track_propagates_error [OF disjI1, OF stops, of exhausted_proxy] raises stops
  show ?thesis by simp
qed

text \<open>
  The claim fails for a \<^verbatim>\<open>StopIteration\<close>: the codex's \<^verbatim>\<open>pluck\<close> raises it at the
  call, and the tracked call raises a \<^verbatim>\<open>RuntimeError\<close> instead.
\<close>

theorem stop_iteration_is_replaced:
  "call (pluck exhausted_proxy) get_request (start_world\<lparr>tick := Suc (tick start_world)\<rparr>) =
     (Inl StopIteration,
      \<lparr>tick = 1, trace = [Pluck get_request (Inl StopIteration)], ext = 0\<rparr>)
   \<and> track exhausted_proxy (pluck exhausted_proxy) get_request start_world =
     (Inl (RuntimeError ''coroutine raised StopIteration''),
      \<lparr>tick = 1, trace = [Pluck get_request (Inl StopIteration)], ext = 0\<rparr>)"
  by (simp add: pluck_def stubs run_defs)

text \<open>
  Claim C1, as the code has it. The claim asks for one sample from every tracked call,
  also from one that fails. The wrapper has no \<^verbatim>\<open>try\<close>: a tracked call whose wrapped
  operation returns forwards exactly one sample \<open>(ms, cls, name)\<close> to \<^verbatim>\<open>db.lap\<close>, with
  \<open>0 \<le> ms\<close> when the counter is monotonic and the operation has not rewound it; a tracked
  call whose wrapped operation raises forwards no sample, and the exception leaves the
  wrapper from the state in which it was raised (a \<^verbatim>\<open>StopIteration\<close> as the
  \<^verbatim>\<open>RuntimeError\<close> that takes its place at the coroutine's boundary).
\<close>

theorem tracked_call_samples:
  assumes "settle (call f args) (s\<lparr>tick := Suc (tick s)\<rparr>) = (out, s2)"
  shows "fst (track p f args s) =
        (case out of Inl e \<Rightarrow> Inl (coroutine_exit e) | Inr v \<Rightarrow> Inr v)
    \<and> trace (snd (track p f args s)) = trace s2 @
        (case out of Inl e \<Rightarrow> []
         | Inr v \<Rightarrow> [Lap (elapsed_ms p (tick s) (tick s2)) (ident_cls p f) (fn_name f)])
    \<and> (mono (clock p) \<and> tick s \<le> tick s2 \<longrightarrow> 0 \<le> elapsed_ms p (tick s) (tick s2))"
  using assms by (auto simp: track_settle elapsed_ms_def mono_def split: sum.splits)

theorem tracked_call_samples_witness:
  "settle (call (ask stub_proxy) get_request) (start_world\<lparr>tick := Suc (tick start_world)\<rparr>) =
     (Inr upstream_response,
      \<lparr>tick = 1, trace = [Ask get_request (Inr upstream_response)], ext = 0\<rparr>)
   \<and> mono (clock stub_proxy) \<and> tick start_world \<le> 1
   \<and> fst (track stub_proxy (ask stub_proxy) get_request start_world) = Inr upstream_response
   \<and> trace (snd (track stub_proxy (ask stub_proxy) get_request start_world)) =
       [Ask get_request (Inr upstream_response), Lap 1000 ''StubServer'' ''ask'']
   \<and> (0::real) \<le> 1000"
proof -
  have run: "settle (call (ask stub_proxy) get_request)
      (start_world\<lparr>tick := Suc (tick start_world)\<rparr>) =
     (Inr upstream_response,
      \<lparr>tick = 1, trace = [Ask get_request (Inr upstream_response)], ext = 0\<rparr>)"
    by (simp add: settle_def await_if_def ask_def bound_method_def on_ext_def stubs)
  have clk: "mono (clock stub_proxy)" "tick start_world \<le> 1"
    by (simp_all add: mono_def stubs)
  from tracked_call_samples [OF run, of stub_proxy] run clk
  show ?thesis
    by (simp add: elapsed_ms_def ident_cls_def ask_def bound_method_sel stubs)
qed

text \<open>
  The claim fails where the wrapped operation fails: the listener's \<^verbatim>\<open>ask\<close> raises
  when awaited, the tracked call raises the same exception, and no sample has been
  forwarded.
\<close>

theorem failing_call_leaves_no_sample:
  "fst (track unreachable_proxy (ask unreachable_proxy) get_request start_world) =
     Inl (Exn ''connection refused'')
   \<and> lap_samples (new_events start_world
        (snd (track unreachable_proxy (ask unreachable_proxy) get_request start_world))) = []"
  by (simp add: ask_def new_events_def stubs run_defs)

section \<open>The search pipeline\<close>



section \<open>The train pipeline\<close>

text \<open>Samples and pulsed mappings of a trace that is built by appending.\<close>

lemma lap_samples_append: "lap_samples (xs @ ys) = lap_samples xs @ lap_samples ys"
  by (induction xs rule: lap_samples.induct) simp_all


lemma new_events_append: "trace s' = trace s @ evs \<Longrightarrow> new_events s s' = evs"
  by (simp add: new_events_def)






section \<open>The status pipeline\<close>

text \<open>
  The body of the status pipeline reads no counter and forwards no sample; a body that
  returns has made the five calls in order, each on the mapping the one before returned
  and in the collaborators' state the one before left.
\<close>

lemma status_body_runs:
  assumes "status_body p r s = (out, sb)"
  shows "tick sb = tick s \<and> (\<exists>evs. trace sb = trace s @ evs \<and> lap_samples evs = [] \<and>
    (\<forall>resp. out = Inr resp \<longrightarrow> (\<exists>d2 d3 d4 d5 c2 c3 c4 c5.
       server_chain_state (server p) Map.empty (ext s) = (Inr d2, c2)
     \<and> codex_chain_state (codex p) d2 c2 = (Inr d3, c3)
     \<and> model_chain_state (model p) d3 c3 = (Inr d4, c4)
     \<and> db_chain_state (db p) d4 c4 = (Inr d5, c5)
     \<and> codex_pulse (codex p) d5 c5 = (Inr resp, ext sb)
     \<and> evs =
       [Server_chain_state Map.empty (Inr d2), Codex_chain_state d2 (Inr d3),
        Model_chain_state d3 (Inr d4), Db_chain_state d4 (Inr d5), Pulse d5 (Inr resp)])))"
  using assms
  by (auto simp: status_body_def bind_comp_def on_ext_def return_comp_def
      split: prod.splits sum.splits)

text \<open>The body depends on the state through the collaborators' state alone.\<close>

lemma status_body_frame:
  "status_body p r s =
     (case status_body p r' (s\<lparr>tick := 0, trace := []\<rparr>) of
        (out, u) \<Rightarrow> (out, s\<lparr>trace := trace s @ trace u, ext := ext u\<rparr>))"
  by (simp add: status_body_def bind_comp_def on_ext_def return_comp_def
      split: prod.splits sum.splits)

lemma status_events:
  assumes "status p r s = (Inr resp, s')"
  obtains u where "status_body p r0 (s\<lparr>tick := 0, trace := []\<rparr>) = (Inr resp, u)"
    "new_events s s' = trace u @ [Lap (elapsed_ms p (tick s) (tick s + 1)) (proxy_class p) ''status'']"
    "ext s' = db_lap (db p) (elapsed_ms p (tick s) (tick s + 1)) (proxy_class p) ''status'' (ext u)"
proof -
  from assms obtain sb where body: "status_body p r (s\<lparr>tick := Suc (tick s)\<rparr>) = (Inr resp, sb)"
    and fin: "trace s' = trace sb @ [Lap (elapsed_ms p (tick s) (tick sb)) (proxy_class p) ''status'']"
    and ex: "ext s' = db_lap (db p) (elapsed_ms p (tick s) (tick sb)) (proxy_class p) ''status''
        (ext sb)"
    unfolding status_def by (cases rule: tracked_closure_cases) auto
  from status_body_runs [OF body] have tk: "tick sb = tick s + 1" by simp
  obtain out u where u: "status_body p r0 (s\<lparr>tick := 0, trace := []\<rparr>) = (out, u)"
    by (cases "status_body p r0 (s\<lparr>tick := 0, trace := []\<rparr>)")
  from body status_body_frame [of p r "s\<lparr>tick := Suc (tick s)\<rparr>" r0] u
  have "out = Inr resp" and "trace sb = trace s @ trace u" and "ext sb = ext u" by auto
  with u fin ex tk that show thesis by (simp add: new_events_def)
qed

text \<open>
  Claim C7. A status request that returns a response has called \<^verbatim>\<open>server.chain_state\<close>
  on the empty mapping, then \<^verbatim>\<open>codex.chain_state\<close>, \<^verbatim>\<open>model.chain_state\<close> and
  \<^verbatim>\<open>db.chain_state\<close>, in that order, each on the mapping the one before returned and in
  the collaborators' state the one before left; the response is the one that
  \<^verbatim>\<open>codex.pulse\<close> returned for the last mapping. Nothing else has been called but
  \<^verbatim>\<open>db.lap\<close>, once, after \<^verbatim>\<open>pulse\<close>. The request itself is not used.
\<close>

theorem status_chain_order:
  assumes "status p r1 s = (Inr resp, s')"
  shows "\<exists>d2 d3 d4 d5 c2 c3 c4 c5 c6.
       server_chain_state (server p) Map.empty (ext s) = (Inr d2, c2)
     \<and> codex_chain_state (codex p) d2 c2 = (Inr d3, c3)
     \<and> model_chain_state (model p) d3 c3 = (Inr d4, c4)
     \<and> db_chain_state (db p) d4 c4 = (Inr d5, c5)
     \<and> codex_pulse (codex p) d5 c5 = (Inr resp, c6)
     \<and> new_events s s' =
         [Server_chain_state Map.empty (Inr d2),
          Codex_chain_state d2 (Inr d3),
          Model_chain_state d3 (Inr d4),
          Db_chain_state d4 (Inr d5),
          Pulse d5 (Inr resp),
          Lap (elapsed_ms p (tick s) (tick s + 1)) (proxy_class p) ''status'']
     \<and> ext s' = db_lap (db p) (elapsed_ms p (tick s) (tick s + 1)) (proxy_class p) ''status'' c6"
proof -
  from assms obtain u where u: "status_body p r1 (s\<lparr>tick := 0, trace := []\<rparr>) = (Inr resp, u)"
    and ev: "new_events s s' =
      trace u @ [Lap (elapsed_ms p (tick s) (tick s + 1)) (proxy_class p) ''status'']"
    and ex: "ext s' =
      db_lap (db p) (elapsed_ms p (tick s) (tick s + 1)) (proxy_class p) ''status'' (ext u)"
    by (rule status_events)
  from status_body_runs [OF u] obtain d2 d3 d4 d5 c2 c3 c4 c5 where
      "server_chain_state (server p) Map.empty (ext s) = (Inr d2, c2)"
      "codex_chain_state (codex p) d2 c2 = (Inr d3, c3)"
      "model_chain_state (model p) d3 c3 = (Inr d4, c4)"
      "db_chain_state (db p) d4 c4 = (Inr d5, c5)"
      "codex_pulse (codex p) d5 c5 = (Inr resp, ext u)"
      "trace u =
       [Server_chain_state Map.empty (Inr d2), Codex_chain_state d2 (Inr d3),
        Model_chain_state d3 (Inr d4), Db_chain_state d4 (Inr d5), Pulse d5 (Inr resp)]"
    by auto
  with ev ex show ?thesis by simp
qed

theorem status_chain_order_witness:
  "status stub_proxy get_request start_world =
     (Inr (Response ''HTTP/1.1'' 200 [] ''status''),
      snd (status stub_proxy get_request start_world))
   \<and> new_events start_world (snd (status stub_proxy get_request start_world)) =
     [Server_chain_state Map.empty (Inr [''server'' \<mapsto> ''up'']),
      Codex_chain_state [''server'' \<mapsto> ''up'']
        (Inr [''server'' \<mapsto> ''up'', ''codex'' \<mapsto> ''x10'']),
      Model_chain_state [''server'' \<mapsto> ''up'', ''codex'' \<mapsto> ''x10'']
        (Inr [''server'' \<mapsto> ''up'', ''codex'' \<mapsto> ''x10'', ''model'' \<mapsto> ''ready'']),
      Db_chain_state [''server'' \<mapsto> ''up'', ''codex'' \<mapsto> ''x10'', ''model'' \<mapsto> ''ready'']
        (Inr [''server'' \<mapsto> ''up'', ''codex'' \<mapsto> ''x10'', ''model'' \<mapsto> ''ready'',
              ''db'' \<mapsto> ''ok'']),
      Pulse [''server'' \<mapsto> ''up'', ''codex'' \<mapsto> ''x10'', ''model'' \<mapsto> ''ready'',
             ''db'' \<mapsto> ''ok'']
        (Inr (Response ''HTTP/1.1'' 200 [] ''status'')),
      Lap 1000 ''Proxy'' ''status'']
   \<and> ext (snd (status stub_proxy get_request start_world)) = 1"
proof -
  have "fst (status stub_proxy get_request start_world) =
      Inr (Response ''HTTP/1.1'' 200 [] ''status'')"
    by (simp add: status_def status_body_def stubs run_defs)
  then have run: "status stub_proxy get_request start_world =
     (Inr (Response ''HTTP/1.1'' 200 [] ''status''),
      snd (status stub_proxy get_request start_world))"
    by (simp add: prod_eq_iff)
  from status_chain_order [OF run] run show ?thesis
    by (clarsimp simp: elapsed_ms_def stubs)
qed

text \<open>
  Claim C10, as the code has it. The claim counts exactly one sample for every status
  invocation. The four \<^verbatim>\<open>chain_state\<close> calls and the \<^verbatim>\<open>pulse\<close> call are not tracked
  one by one, in any run: a status invocation that returns forwards exactly one sample, for
  the pipeline as a whole, timed between two consecutive readings of the counter, whose
  owner is the orchestrator's own class name and whose operation is \<^verbatim>\<open>status\<close>; a
  status invocation in which a step raises forwards no sample.
\<close>

theorem status_single_sample:
  assumes "status p r1 s = (out, s')"
  shows "lap_samples (new_events s s') =
     (case out of
        Inl e \<Rightarrow> []
      | Inr resp \<Rightarrow> [(elapsed_ms p (tick s) (tick s + 1), proxy_class p, ''status'')])"
proof (cases out)
  case (Inl e)
  with assms obtain e' where "status_body p r1 (s\<lparr>tick := Suc (tick s)\<rparr>) = (Inl e', s')"
    unfolding status_def by (cases rule: tracked_closure_cases) auto
  from status_body_runs [OF this] Inl show ?thesis by (auto simp: new_events_def)
next
  case (Inr resp)
  with assms have "status p r1 s = (Inr resp, s')" by simp
  then obtain u where u: "status_body p r1 (s\<lparr>tick := 0, trace := []\<rparr>) = (Inr resp, u)"
    and ev: "new_events s s' =
      trace u @ [Lap (elapsed_ms p (tick s) (tick s + 1)) (proxy_class p) ''status'']"
    by (rule status_events)
  from status_body_runs [OF u] ev Inr show ?thesis by (auto simp: lap_samples_append)
qed

theorem status_single_sample_witness:
  "status stub_proxy get_request start_world =
     (Inr (Response ''HTTP/1.1'' 200 [] ''status''),
      snd (status stub_proxy get_request start_world))
   \<and> lap_samples (new_events start_world (snd (status stub_proxy get_request start_world))) =
       [(1000, ''Proxy'', ''status'')]"
proof -
  have "fst (status stub_proxy get_request start_world) =
      Inr (Response ''HTTP/1.1'' 200 [] ''status'')"
    by (simp add: status_def status_body_def stubs run_defs)
  then have run: "status stub_proxy get_request start_world =
     (Inr (Response ''HTTP/1.1'' 200 [] ''status''),
      snd (status stub_proxy get_request start_world))"
    by (simp add: prod_eq_iff)
  from status_single_sample [OF run] run show ?thesis
    by (simp add: elapsed_ms_def stubs)
qed

text \<open>
  The claim fails where a step of the pipeline fails: the db raises on its status fragment,
  the invocation raises the same exception, and no sample has been forwarded.
\<close>

theorem failing_status_leaves_no_sample:
  "fst (status failing_status_proxy get_request start_world) = Inl (Exn ''db closed'')
   \<and> lap_samples (new_events start_world
        (snd (status failing_status_proxy get_request start_world))) = []"
  by (simp add: status_def status_body_def stubs run_defs new_events_def)




section \<open>Scoped acquisition\<close>

text \<open>
  Claim C8. \<^verbatim>\<open>with proxy: body\<close> starts the listener and waits on the readiness signal
  before the body runs: the body runs in the state that \<^verbatim>\<open>is_ready.wait()\<close> returned.
  Whatever the outcome \<open>r\<close> of the body, a value or an exception, release logs the stop,
  calls \<^verbatim>\<open>server.exit()\<close> and then \<^verbatim>\<open>server.join()\<close>, and the outcome of the whole
  statement is \<open>r\<close>. Waiting is the business of \<^verbatim>\<open>wait\<close> and \<^verbatim>\<open>join\<close> themselves:
  here a call that has returned has finished waiting.
\<close>

theorem scoped_acquisition:
  assumes "body (dunder_enter p s) = (r, s2)"
  shows "new_events s (dunder_enter p s) = [Server_start, Is_ready_wait]
    \<and> ext (dunder_enter p s) = server_is_ready_wait (server p) (server_start (server p) (ext s))
    \<and> with_proxy p body s = (r, dunder_exit p s2)
    \<and> new_events s2 (dunder_exit p s2) =
        [Log_critical ''Stopping proxy...'', Server_exit, Server_join]
    \<and> ext (dunder_exit p s2) = server_join (server p) (server_exit (server p) (ext s2))"
  using assms
  by (simp add: with_proxy_def dunder_enter_def dunder_exit_def enter_def exit_def
      life_cycle_def log_event_def new_events_def Let_def)

theorem scoped_acquisition_witness:
  "with_proxy stub_proxy (\<lambda>w. (Inl (Exn ''interrupted'') :: exn + unit, w)) start_world =
     (Inl (Exn ''interrupted''),
      \<lparr>tick = 0,
       trace = [Server_start, Is_ready_wait,
                Log_critical ''Stopping proxy...'', Server_exit, Server_join],
       ext = 0\<rparr>)
   \<and> with_proxy stub_proxy (\<lambda>w. (Inr (), w)) start_world =
     (Inr (),
      \<lparr>tick = 0,
       trace = [Server_start, Is_ready_wait,
                Log_critical ''Stopping proxy...'', Server_exit, Server_join],
       ext = 0\<rparr>)"
proof -
  note raising = scoped_acquisition [where body = "\<lambda>w. (Inl (Exn ''interrupted'') :: exn + unit, w)"
      and p = stub_proxy and s = start_world and r = "Inl (Exn ''interrupted'')"
      and ?s2.0 = "dunder_enter stub_proxy start_world"]
  note returning = scoped_acquisition [where body = "\<lambda>w. (Inr (), w)"
      and p = stub_proxy and s = start_world and r = "Inr ()"
      and ?s2.0 = "dunder_enter stub_proxy start_world"]
  from raising returning show ?thesis
    by (simp add: dunder_enter_def dunder_exit_def enter_def exit_def life_cycle_def
        log_event_def stubs Let_def)
qed

section \<open>Construction\<close>

text \<open>
  Claim C2, on the code. Construction calls \<^verbatim>\<open>server.create_app\<close> exactly once, with
  a table that maps \<^verbatim>\<open>SEARCH\<close>, \<^verbatim>\<open>TRAIN\<close>, \<^verbatim>\<open>STATUS\<close> and \<^verbatim>\<open>ERROR\<close> to the
  codex's binding and the tracked callback of that name, and the table is not touched
  afterwards. The \<^verbatim>\<open>not_found\<close> callback is defined and tracked, and then never handed
  to the listener: the call passes no default handler, no entry of the table holds it, and
  construction makes no other call to the listener.
\<close>

theorem init_hands_over_four_routes:
  "new_events s (init p s) =
     [Create_app (routes_of p) None,
      Log_info [(''server'', server_class (server p)), (''codex'', codex_class (codex p)),
                (''model'', model_class (model p)), (''db'', db_class (db p))]]
   \<and> routes_of p SEARCH = Some (codex_SEARCH (codex p), Search)
   \<and> routes_of p TRAIN = Some (codex_TRAIN (codex p), Train)
   \<and> routes_of p STATUS = Some (codex_STATUS (codex p), Status)
   \<and> routes_of p ERROR = Some (codex_ERROR (codex p), Error)
   \<and> (\<forall>k b. routes_of p k \<noteq> Some (b, Not_found))"
proof -
  have "routes_of p k \<noteq> Some (b, Not_found)" for k b
    by (cases k) (simp_all add: routes_of_def)
  then show ?thesis
    by (simp add: init_def create_app_def log_event_def new_events_def routes_of_def Let_def)
qed

end
